theory Spec2Isabelle
  imports Complex_Main
begin

section \<open>Text\<close>

text \<open>
  A Python \<open>str\<close> is modelled as a \<open>string\<close>, one \<open>char\<close> per code point, so the
  model covers the texts whose code points are below 256. \<open>isspace\<close> is the class that
  \<open>str.strip()\<close> removes (\<open>str.isspace\<close>), \<open>re_space\<close> the class \<open>\s\<close> of the
  \<open>regex\<close> engine (the Unicode property White_Space), \<open>bytes_space\<close> the class that
  \<open>bytes.strip()\<close> removes.
\<close>

definition isspace :: "char \<Rightarrow> bool" where
  "isspace c = (c \<in> set [CHR 0x09, CHR 0x0A, CHR 0x0B, CHR 0x0C, CHR 0x0D,
                          CHR 0x1C, CHR 0x1D, CHR 0x1E, CHR 0x1F, CHR '' '',
                          CHR 0x85, CHR 0xA0])"

definition re_space :: "char \<Rightarrow> bool" where
  "re_space c = (c \<in> set [CHR 0x09, CHR 0x0A, CHR 0x0B, CHR 0x0C, CHR 0x0D, CHR '' '',
                           CHR 0x85, CHR 0xA0])"

definition bytes_space :: "char \<Rightarrow> bool" where
  "bytes_space c = (c \<in> set [CHR 0x09, CHR 0x0A, CHR 0x0B, CHR 0x0C, CHR 0x0D, CHR '' ''])"

definition strip :: "string \<Rightarrow> string" where
  "strip s = rev (dropWhile isspace (rev (dropWhile isspace s)))"

definition bytes_strip :: "string \<Rightarrow> string" where
  "bytes_strip s = rev (dropWhile bytes_space (rev (dropWhile bytes_space s)))"

definition startswith :: "string \<Rightarrow> string \<Rightarrow> bool" where
  "startswith s p = (take (length p) s = p)"

definition endswith :: "string \<Rightarrow> string \<Rightarrow> bool" where
  "endswith s q = (length q \<le> length s \<and> drop (length s - length q) s = q)"

text \<open>\<open>contains sub s\<close> is Python's \<open>sub in s\<close>.\<close>

fun contains :: "string \<Rightarrow> string \<Rightarrow> bool" where
  "contains sub [] = (sub = [])"
| "contains sub (c # cs) = (startswith (c # cs) sub \<or> contains sub cs)"

section \<open>Exceptions, events and effects\<close>

text \<open>
  A raised exception is its class name and its \<open>str()\<close>. \<open>Exc\<close> is an instance of a
  subclass of \<open>Exception\<close>, which \<open>except Exception\<close> catches; \<open>NonExc\<close> is an instance
  of a class that derives from \<open>BaseException\<close> only (\<open>SystemExit\<close>,
  \<open>KeyboardInterrupt\<close>, \<open>GeneratorExit\<close>), which \<open>except Exception\<close> lets through and a
  bare \<open>except:\<close> catches.
\<close>

datatype py_exc = Exc string string | NonExc string string

fun is_Exception :: "py_exc \<Rightarrow> bool" where
  "is_Exception (Exc cls msg) = True"
| "is_Exception (NonExc cls msg) = False"

fun str_of :: "py_exc \<Rightarrow> string" where
  "str_of (Exc cls msg) = msg"
| "str_of (NonExc cls msg) = msg"

datatype level = INFO | ERROR | CRITICAL

datatype message = SystemMessage string | HumanMessage string

datatype llm_input = Messages "message list" | Prompt string

text \<open>
  What a run does to the outside, in order: log records, prints, calls of the language
  model, of the vector store and of the warehouse, files written, code executed.
\<close>

datatype event =
    Log level string
  | Print string
  | Invoke llm_input
  | Search string nat
  | Query string
  | WriteFile string string
  | Exec string

type_synonym trace = "event list"

type_synonym 'a io = "trace \<Rightarrow> (py_exc + 'a) \<times> trace"

definition ret :: "'a \<Rightarrow> 'a io" where
  "ret x = (\<lambda>t. (Inr x, t))"

definition bind :: "'a io \<Rightarrow> ('a \<Rightarrow> 'b io) \<Rightarrow> 'b io" where
  "bind m f = (\<lambda>t. case m t of (Inl e, t') \<Rightarrow> (Inl e, t') | (Inr x, t') \<Rightarrow> f x t')"

definition emit :: "event \<Rightarrow> unit io" where
  "emit ev = (\<lambda>t. (Inr (), t @ [ev]))"

definition lift :: "py_exc + 'a \<Rightarrow> 'a io" where
  "lift r = (\<lambda>t. (r, t))"

text \<open>\<open>try: m  except Exception as e: h e\<close>\<close>

definition try_except :: "'a io \<Rightarrow> (py_exc \<Rightarrow> 'a io) \<Rightarrow> 'a io" where
  "try_except m h =
     (\<lambda>t. case m t of
            (Inl e, t') \<Rightarrow> if is_Exception e then h e t' else (Inl e, t')
          | (Inr x, t') \<Rightarrow> (Inr x, t'))"

section \<open>Response Sanitizer (data_handler.py, refine_response)\<close>

text \<open>
  Python does not check the declared type of an argument: the sanitizer can be handed a
  value that is not a \<open>str\<close>. \<open>re.sub\<close> with a \<open>str\<close> pattern raises \<open>TypeError\<close> on
  \<open>bytes\<close> and on \<open>None\<close>; \<open>bytes\<close> has a \<open>strip\<close> method, \<open>None\<close> has none.
\<close>

datatype pyval = PyStr string | PyBytes string | PyNone

text \<open>\<open>re.sub(r"^sql\s*", "", s)\<close>: without \<open>re.MULTILINE\<close> the anchor matches at
  position 0 only, and without \<open>re.IGNORECASE\<close> the letters match in lower case only.\<close>

definition sub_sql_tag :: "string \<Rightarrow> string" where
  "sub_sql_tag s = (if startswith s ''sql'' then dropWhile re_space (drop 3 s) else s)"

text \<open>
  \<open>re.sub(r"^OPEN(.*)CLOSE$", r"\1", s, flags=re.DOTALL)\<close> for literal \<open>OPEN\<close> and
  \<open>CLOSE\<close> (here \<open>CLOSE\<close> ends in a backtick): the greedy group runs to the last
  \<open>CLOSE\<close> that \<open>$\<close> accepts, and \<open>$\<close> accepts the end of the string and the position
  before a newline that ends the string. Only the matched part is replaced, so that
  newline stays.
\<close>

definition sub_wrapped :: "string \<Rightarrow> string \<Rightarrow> string \<Rightarrow> string" where
  "sub_wrapped opn cls s =
     (if startswith s opn then
        (let r = drop (length opn) s in
         if endswith r cls then take (length r - length cls) r
         else if endswith r (cls @ [CHR 0x0A])
              then take (length r - length cls - 1) r @ [CHR 0x0A]
         else s)
      else s)"

definition re_sub :: "(string \<Rightarrow> string) \<Rightarrow> pyval \<Rightarrow> py_exc + pyval" where
  "re_sub f v =
     (case v of
        PyStr s \<Rightarrow> Inr (PyStr (f s))
      | PyBytes b \<Rightarrow> Inl (Exc ''TypeError'' ''cannot use a string pattern on a bytes-like object'')
      | PyNone \<Rightarrow> Inl (Exc ''TypeError'' ''expected string or bytes-like object''))"

definition py_strip :: "pyval \<Rightarrow> py_exc + pyval" where
  "py_strip v =
     (case v of
        PyStr s \<Rightarrow> Inr (PyStr (strip s))
      | PyBytes b \<Rightarrow> Inr (PyBytes (bytes_strip b))
      | PyNone \<Rightarrow> Inl (Exc ''AttributeError'' ''NoneType object has no attribute strip''))"

text \<open>
  The assignments \<open>response = re.sub(...)\<close> inside the \<open>try\<close>: they run in order, each
  on the value the one before left in \<open>response\<close>; the first that raises ends the block,
  and \<open>response\<close> keeps the value it had then.
\<close>

fun run_subs :: "(pyval \<Rightarrow> py_exc + pyval) list \<Rightarrow> pyval \<Rightarrow> pyval \<times> py_exc option" where
  "run_subs [] v = (v, None)"
| "run_subs (f # fs) v = (case f v of Inl e \<Rightarrow> (v, Some e) | Inr v' \<Rightarrow> run_subs fs v')"

definition refine_response :: "pyval \<Rightarrow> pyval io" where
  "refine_response response =
     bind (emit (Log INFO ''Refining Resonse...'')) (\<lambda>_.
       case run_subs [re_sub sub_sql_tag,
                      re_sub (sub_wrapped ''```sql'' ''```''),
                      re_sub (sub_wrapped ''```'' ''```''),
                      re_sub (sub_wrapped ''`'' ''`'')] response of
         (response', None) \<Rightarrow> lift (py_strip response')
       | (response', Some e) \<Rightarrow>
           bind (emit (Log ERROR ''Error in refine_response.'')) (\<lambda>_.
             lift (py_strip response')))"

text \<open>
  What \<open>refine_response\<close> makes of a \<open>str\<close>: the tag substitution, the three fence
  substitutions (\<open>unwrap_fences\<close>), then the trim.
\<close>

definition unwrap_fences :: "string \<Rightarrow> string" where
  "unwrap_fences s =
     sub_wrapped ''`'' ''`'' (sub_wrapped ''```'' ''```'' (sub_wrapped ''```sql'' ''```'' s))"

definition refine_text :: "string \<Rightarrow> string" where
  "refine_text s = strip (unwrap_fences (sub_sql_tag s))"

text \<open>A text is fenced when it starts with a backtick and ends with a backtick.\<close>

definition fenced :: "string \<Rightarrow> bool" where
  "fenced s = (startswith s ''`'' \<and> endswith s ''`'')"

section \<open>Tables (pandas DataFrame) and the cleaning step\<close>

text \<open>
  A cell is a missing value (\<open>NaN\<close>, \<open>None\<close>), a number, a text or a boolean. A frame
  is its column names and its rows, each row with its index label. \<open>len(data)\<close> is the
  number of rows.
\<close>

datatype cell = Missing | Num real | Text string | Bool bool

record dataframe =
  df_columns :: "string list"
  df_rows :: "(nat \<times> cell list) list"

text \<open>
  \<open>data.fillna(0, inplace=True)\<close>, cell by cell. The source fills the caller's frame in
  place; the model returns the filled frame, and no function modelled here reads the
  caller's frame again after the fill (its row count is taken before).
\<close>

fun fillna0 :: "cell \<Rightarrow> cell" where
  "fillna0 Missing = Num 0"
| "fillna0 c = c"

definition fillna :: "dataframe \<Rightarrow> dataframe" where
  "fillna df = df\<lparr>df_rows := map (\<lambda>(i, r). (i, map fillna0 r)) (df_rows df)\<rparr>"

text \<open>The comparison \<open>!= 0\<close> of one cell: \<open>False != 0\<close> is false, a text differs from 0,
  and so does \<open>NaN\<close>.\<close>

fun ne_zero :: "cell \<Rightarrow> bool" where
  "ne_zero Missing = True"
| "ne_zero (Num x) = (x \<noteq> 0)"
| "ne_zero (Text s) = True"
| "ne_zero (Bool b) = b"

text \<open>\<open>data[(data != 0).any(axis=1)]\<close>: the rows with a cell that differs from 0, each
  with its index label.\<close>

definition keep_nonzero :: "dataframe \<Rightarrow> dataframe" where
  "keep_nonzero df = df\<lparr>df_rows := filter (\<lambda>(i, r). list_ex ne_zero r) (df_rows df)\<rparr>"

text \<open>\<open>.reset_index(drop=True)\<close>: the labels become 0, 1, 2, ...\<close>

definition reset_index :: "dataframe \<Rightarrow> dataframe" where
  "reset_index df =
     df\<lparr>df_rows := zip [0..<length (df_rows df)] (map snd (df_rows df))\<rparr>"

text \<open>\<open>data.head(n)\<close> for \<open>n \<ge> 0\<close>\<close>

definition head :: "nat \<Rightarrow> dataframe \<Rightarrow> dataframe" where
  "head n df = df\<lparr>df_rows := take n (df_rows df)\<rparr>"

text \<open>
  The comparison \<open>== 0\<close> of one cell, and a row whose values are all equal to 0.
\<close>

fun eq_zero :: "cell \<Rightarrow> bool" where
  "eq_zero Missing = False"
| "eq_zero (Num x) = (x = 0)"
| "eq_zero (Text s) = False"
| "eq_zero (Bool b) = (\<not> b)"

definition all_zero :: "cell list \<Rightarrow> bool" where
  "all_zero r = list_all eq_zero r"

definition preprocess_data :: "dataframe \<Rightarrow> dataframe io" where
  "preprocess_data data =
     bind (emit (Log INFO ''Preporcessing Data...'')) (\<lambda>_.
       ret (reset_index (keep_nonzero (fillna data))))"

section \<open>Collaborators\<close>

text \<open>
  The objects a namespace of executed code can hold: the two modules, a frame, a text,
  \<open>None\<close>, or anything else (\<open>Obj\<close>, a chart for instance).
\<close>

datatype 'o pyobj = PdModule | AltModule | Frame dataframe | Str string | NoneObj | Obj 'o

text \<open>
  The language model, the vector store, the warehouse, the Python interpreter behind
  \<open>exec\<close> and the JSON writer of pandas (\<open>to_json\<close> with \<open>orient="records"\<close>,
  \<open>indent=4\<close>) are outside the repository: they are parameters. An answer may
  depend on everything that happened before (the trace). The client libraries fail by
  raising an ordinary exception (\<open>Inl\<close> its message); executed code may raise anything.
  The prompt templates are long literals of the source with holes for the arguments, and
  are parameters too.
\<close>

record 'o env =
  llm :: "trace \<Rightarrow> llm_input \<Rightarrow> string + string"
  vector_store :: "trace \<Rightarrow> string \<Rightarrow> nat \<Rightarrow> string + string list"
  exec_code :: "trace \<Rightarrow> string \<Rightarrow> (string \<rightharpoonup> 'o pyobj) \<Rightarrow> py_exc + (string \<rightharpoonup> 'o pyobj)"
  warehouse :: "trace \<Rightarrow> string \<Rightarrow> string + dataframe"
  to_json :: "dataframe \<Rightarrow> string"
  short_prompt :: "string \<Rightarrow> string \<Rightarrow> string"
  large_prompt :: "string \<Rightarrow> string \<Rightarrow> string \<Rightarrow> string"
  SYSTEM_PROMPT :: string
  SYSTEM_PROMPT_2 :: "string \<Rightarrow> string \<Rightarrow> string"

definition client_result :: "string + 'a \<Rightarrow> py_exc + 'a" where
  "client_result r = (case r of Inl msg \<Rightarrow> Inl (Exc ''Exception'' msg) | Inr x \<Rightarrow> Inr x)"

text \<open>\<open>llm.invoke(x).content\<close>\<close>

definition invoke :: "'o env \<Rightarrow> llm_input \<Rightarrow> string io" where
  "invoke env x = (\<lambda>t. (client_result (llm env t x), t @ [Invoke x]))"

text \<open>\<open>[item.page_content for item in vector_store.similarity_search(q, k=k)]\<close>\<close>

definition similarity_search :: "'o env \<Rightarrow> string \<Rightarrow> nat \<Rightarrow> string list io" where
  "similarity_search env q k = (\<lambda>t. (client_result (vector_store env t q k), t @ [Search q k]))"

text \<open>\<open>exec(code, local_vars)\<close>, giving the namespace as the code leaves it.\<close>

definition exec :: "'o env \<Rightarrow> string \<Rightarrow> (string \<rightharpoonup> 'o pyobj) \<Rightarrow> (string \<rightharpoonup> 'o pyobj) io" where
  "exec env code ns = (\<lambda>t. (exec_code env t code ns, t @ [Exec code]))"

text \<open>\<open>bq_manager.execute_query(reg)\<close>\<close>

definition execute_query :: "'o env \<Rightarrow> string \<Rightarrow> dataframe io" where
  "execute_query env reg = (\<lambda>t. (client_result (warehouse env t reg), t @ [Query reg]))"

text \<open>The Data Fetcher: the table, or \<open>None\<close> when the query fails.\<close>

definition get_data :: "'o env \<Rightarrow> string \<Rightarrow> dataframe option io" where
  "get_data env reg =
     try_except
       (bind (emit (Log INFO ''Hitting BigQuery...'')) (\<lambda>_.
          bind (execute_query env reg) (\<lambda>data. ret (Some data))))
       (\<lambda>e. bind (emit (Log ERROR (''SQL Query Problem: '' @ str_of e))) (\<lambda>_.
              bind (emit (Log CRITICAL ''TERMINATED'')) (\<lambda>_. ret None)))"

section \<open>Code Extractor/Executor (data_handler.py, process_llm_response)\<close>

text \<open>\<open>find_sub p s\<close> splits \<open>s\<close> at the leftmost occurrence of \<open>p\<close>: the text before it
  and the text after it.\<close>

fun find_sub :: "string \<Rightarrow> string \<Rightarrow> (string \<times> string) option" where
  "find_sub p [] = (if p = [] then Some ([], []) else None)"
| "find_sub p (c # cs) =
     (if startswith (c # cs) p then Some ([], drop (length p) (c # cs))
      else map_option (\<lambda>(a, b). (c # a, b)) (find_sub p cs))"

text \<open>
  \<open>re.search(r"OPEN(.*?)```", s, re.DOTALL)\<close> for a literal \<open>OPEN\<close> that starts with three
  backticks: the text before the match, the group, the text after the match. The lazy
  group ends at the first closing fence after \<open>OPEN\<close>. When the leftmost \<open>OPEN\<close> has no
  closing fence after it, no later one has (a later \<open>OPEN\<close> would itself close the first).
\<close>

definition search_fence :: "string \<Rightarrow> string \<Rightarrow> (string \<times> string \<times> string) option" where
  "search_fence opn s =
     (case find_sub opn s of
        None \<Rightarrow> None
      | Some (pre, rest) \<Rightarrow>
          (case find_sub ''```'' rest of
             None \<Rightarrow> None
           | Some (body, post) \<Rightarrow> Some (pre, body, post)))"

text \<open>\<open>re.sub(r"```TAG(.*?)```", "", s, flags=re.DOTALL)\<close>: every match, left to right.
  The source calls it with the tag \<open>python\<close> (\<open>code_pattern\<close>).\<close>

function sub_fence :: "string \<Rightarrow> string \<Rightarrow> string" where
  "sub_fence opn s =
     (case search_fence (''```'' @ opn) s of
        None \<Rightarrow> s
      | Some (pre, body, post) \<Rightarrow> pre @ sub_fence opn post)"
  by pat_completeness auto
termination
proof (relation "measure (\<lambda>(opn, s). length s)")
  show "wf (measure (\<lambda>(opn, s). length s))" by simp
next
  fix opn s x2 pre y body post
  assume a: "search_fence (''```'' @ opn) s = Some x2" "(pre, y) = x2" "(body, post) = y"
  have fs: "\<And>p u a b. find_sub p u = Some (a, b) \<Longrightarrow> length b + length p \<le> length u"
  proof -
    fix p u a b show "find_sub p u = Some (a, b) \<Longrightarrow> length b + length p \<le> length u"
    proof (induction u arbitrary: a)
      case Nil then show ?case by (auto split: if_splits)
    next
      case (Cons c cs)
      then show ?case by (fastforce simp: startswith_def split: if_splits)
    qed
  qed
  from a obtain rest where 1: "find_sub (''```'' @ opn) s = Some (pre, rest)"
    and 2: "find_sub ''```'' rest = Some (body, post)"
    by (auto simp: search_fence_def split: option.splits prod.splits)
  from fs[OF 1] fs[OF 2] have "length post < length s" by simp
  then show "((opn, post), (opn, s)) \<in> measure (\<lambda>(opn, s). length s)" by simp
qed

text \<open>
  \<open>re.sub(r"```(.*?)```", "", s)\<close>, the substitution of \<open>nocode_pattern\<close>, which the
  source calls without \<open>re.DOTALL\<close>: the dot does not match a newline, so a fence
  matches only when its closing fence comes before the end of the line. At an opening
  fence the lazy group ends at the first closing fence after it; when a newline comes
  first, or no closing fence follows, there is no match at this position and the scan
  goes on at the next character.
\<close>

function sub_fence_line :: "string \<Rightarrow> string" where
  "sub_fence_line [] = []"
| "sub_fence_line (c # cs) =
     (if startswith (c # cs) ''```'' then
        (case find_sub ''```'' (drop 3 (c # cs)) of
           None \<Rightarrow> c # sub_fence_line cs
         | Some (body, post) \<Rightarrow>
             if CHR 0x0A \<in> set body then c # sub_fence_line cs else sub_fence_line post)
      else c # sub_fence_line cs)"
  by pat_completeness auto
termination
proof (relation "measure length", goal_cases)
  case 1
  show ?case by simp
next
  case (2 c cs)
  show ?case by simp
next
  case (3 c cs x2 body post)
  show ?case by simp
next
  case (4 c cs x2 body post)
  have fs: "\<And>p u a b. find_sub p u = Some (a, b) \<Longrightarrow> length b + length p \<le> length u"
  proof -
    fix p u a b show "find_sub p u = Some (a, b) \<Longrightarrow> length b + length p \<le> length u"
    proof (induction u arbitrary: a)
      case Nil then show ?case by (auto split: if_splits)
    next
      case (Cons c cs)
      then show ?case by (fastforce simp: startswith_def split: if_splits)
    qed
  qed
  from 4 have "find_sub ''```'' (drop 3 (c # cs)) = Some (body, post)" by simp
  from fs[OF this] have "length post < length (c # cs)" by simp
  then show ?case by simp
next
  case (5 c cs)
  show ?case by simp
qed

text \<open>\<open>re.sub(r"Python Code:\s*", "", s)\<close>\<close>

function sub_label :: "string \<Rightarrow> string" where
  "sub_label s =
     (case find_sub ''Python Code:'' s of
        None \<Rightarrow> s
      | Some (pre, rest) \<Rightarrow> pre @ sub_label (dropWhile re_space rest))"
  by pat_completeness auto
termination
proof (relation "measure length")
  show "wf (measure length)" by simp
next
  fix s x2 pre rest
  assume a: "find_sub ''Python Code:'' s = Some x2" "(pre, rest) = x2"
  have fs: "\<And>p u a b. find_sub p u = Some (a, b) \<Longrightarrow> length b + length p \<le> length u"
  proof -
    fix p u a b show "find_sub p u = Some (a, b) \<Longrightarrow> length b + length p \<le> length u"
    proof (induction u arbitrary: a)
      case Nil then show ?case by (auto split: if_splits)
    next
      case (Cons c cs)
      then show ?case by (fastforce simp: startswith_def split: if_splits)
    qed
  qed
  from a have "find_sub ''Python Code:'' s = Some (pre, rest)" by simp
  from fs[OF this] have "length rest < length s" by simp
  moreover have "length (dropWhile re_space rest) \<le> length rest" by (rule length_dropWhile_le)
  ultimately show "(dropWhile re_space rest, s) \<in> measure length" by simp
qed

text \<open>The class \<open>\w\<close> on the code points below 256: letters, digits and the underscore.\<close>

definition is_word :: "char \<Rightarrow> bool" where
  "is_word c =
     (let n = (of_char c :: nat) in
      (48 \<le> n \<and> n \<le> 57) \<or> (65 \<le> n \<and> n \<le> 90) \<or> n = 95 \<or> (97 \<le> n \<and> n \<le> 122)
      \<or> n = 170 \<or> n = 181 \<or> n = 186
      \<or> (192 \<le> n \<and> n \<le> 214) \<or> (216 \<le> n \<and> n \<le> 246) \<or> (248 \<le> n \<and> n \<le> 255))"

text \<open>
  \<open>re.sub(r"\b\w+\.EXT\b", "", s)\<close>, scanning left to right; \<open>prev\<close> says whether the
  character before the current position is a word character. A match starts where a
  run of word characters starts, takes the whole run (the dot that follows is not a word
  character), then \<open>.EXT\<close>, and needs a word boundary after it.
\<close>

function sub_fileref :: "string \<Rightarrow> bool \<Rightarrow> string \<Rightarrow> string" where
  "sub_fileref ext prev [] = []"
| "sub_fileref ext prev (c # cs) =
     (if is_word c \<and> \<not> prev then
        (let run = takeWhile is_word (c # cs);
             rest = dropWhile is_word (c # cs);
             after = drop (Suc (length ext)) rest
         in if startswith rest (CHR ''.'' # ext) \<and> (after = [] \<or> \<not> is_word (hd after))
            then sub_fileref ext True after
            else run @ sub_fileref ext True rest)
      else c # sub_fileref ext (is_word c) cs)"
  by pat_completeness auto
termination
proof (relation "measure (\<lambda>(ext, prev, s). length s)", goal_cases)
  case 1
  show ?case by simp
next
  case (2 ext prev c cs run rest after)
  have "length (dropWhile is_word cs) \<le> length cs" by (rule length_dropWhile_le)
  with 2 show ?case by simp
next
  case (3 ext prev c cs run rest after)
  have "length (dropWhile is_word cs) \<le> length cs" by (rule length_dropWhile_le)
  with 3 show ?case by simp
next
  case (4 ext prev c cs)
  show ?case by simp
qed

text \<open>
  Step 4 of \<open>process_llm_response\<close>: the six substitutions, each followed by a trim.
  Only the first, of \<open>code_pattern\<close>, is called with \<open>re.DOTALL\<close>.
\<close>

definition clean_response :: "string \<Rightarrow> string" where
  "clean_response response_text =
     (let r1 = strip (sub_fence ''python'' response_text);
          r2 = strip (sub_fileref ''png'' False r1);
          r3 = strip (sub_label r2);
          r4 = strip (sub_fileref ''html'' False r3);
          r5 = strip (sub_fileref ''json'' False r4)
      in strip (sub_fence_line r5))"

text \<open>The substitutions repeated inside the \<open>try\<close>, after the code has run.\<close>

definition clean_again :: "string \<Rightarrow> string" where
  "clean_again response_text =
     (let r1 = strip (sub_fence ''python'' response_text);
          r2 = strip (sub_fileref ''png'' False r1);
          r3 = strip (sub_fileref ''html'' False r2);
          r4 = strip (sub_fileref ''json'' False r3);
          r5 = strip (sub_fence_line r4)
      in strip (sub_label r5))"

definition process_llm_response :: "'o env \<Rightarrow> string \<Rightarrow> 'o pyobj \<Rightarrow> (string \<times> 'o pyobj) io" where
  "process_llm_response env response_text data =
     bind (emit (Log INFO ''Function process_llm_response'')) (\<lambda>_.
       let code_match = search_fence ''```python'' response_text;
           cleaned = clean_response response_text
       in case code_match of
            None \<Rightarrow> ret (cleaned, NoneObj)
          | Some (before, group1, after) \<Rightarrow>
              try_except
                (bind (emit (Log INFO ''Python Code found in the response.'')) (\<lambda>_.
                   let code = strip group1;
                       local_vars = [''pd'' \<mapsto> PdModule, ''alt'' \<mapsto> AltModule, ''data'' \<mapsto> data]
                   in bind (exec env code local_vars) (\<lambda>local_vars'.
                        bind (case local_vars' ''chart'' of
                                None \<Rightarrow> ret NoneObj
                              | Some c \<Rightarrow>
                                  bind (emit (Log INFO ''Chart found in the local_vars.'')) (\<lambda>_.
                                    bind (emit (Log CRITICAL ''TERMINATED'')) (\<lambda>_. ret c)))
                          (\<lambda>chart. ret (clean_again cleaned, chart)))))
                (\<lambda>e. bind (emit (Log ERROR ''Failed to Generate Chart.'')) (\<lambda>_.
                       bind (emit (Log CRITICAL ''TERMINATED'')) (\<lambda>_.
                         ret (cleaned @ [CHR 0x0A] @ ''Error generating visualization: '' @ str_of e,
                              NoneObj)))))"

section \<open>Dataset Router (data_handler.py)\<close>

definition save_json :: "'o env \<Rightarrow> dataframe \<Rightarrow> string \<Rightarrow> string io" where
  "save_json env data filename =
     bind (emit (Log INFO ''Saving to Json...'')) (\<lambda>_.
       bind (emit (WriteFile filename (to_json env data))) (\<lambda>_. ret filename))"

definition get_head :: "'o env \<Rightarrow> dataframe \<Rightarrow> nat \<Rightarrow> string io" where
  "get_head env data n =
     bind (emit (Log INFO ''Fetching Head...'')) (\<lambda>_. ret (to_json env (head n data)))"

definition short_data :: "'o env \<Rightarrow> dataframe \<Rightarrow> string \<Rightarrow> (string \<times> string) io" where
  "short_data env data user_input =
     bind (emit (Log INFO ''Fucntion short_data.'')) (\<lambda>_.
       bind (preprocess_data data) (\<lambda>preprocessed_data.
         let data_json = to_json env preprocessed_data
         in bind (invoke env (Prompt (short_prompt env data_json user_input))) (\<lambda>content.
              ret (strip content, data_json))))"

definition large_data ::
  "'o env \<Rightarrow> dataframe \<Rightarrow> string \<Rightarrow> string \<Rightarrow> nat \<Rightarrow> (string \<times> dataframe) io" where
  "large_data env data user_input filename n =
     bind (emit (Log INFO ''Function large_data'')) (\<lambda>_.
       bind (preprocess_data data) (\<lambda>preprocessed_data.
         bind (save_json env preprocessed_data filename) (\<lambda>json_filename.
           bind (get_head env preprocessed_data n) (\<lambda>data_preview.
             bind (invoke env (Prompt (large_prompt env json_filename data_preview user_input)))
               (\<lambda>content. ret (strip content, preprocessed_data))))))"

text \<open>What \<open>data_handle\<close> returns: a pair, a triple, or \<open>None\<close> where no branch returns.\<close>

datatype 'o returned =
    Tuple2 string "'o pyobj"
  | Tuple3 nat string "'o pyobj"
  | ReturnsNone

definition data_handle ::
  "'o env \<Rightarrow> dataframe \<Rightarrow> string \<Rightarrow> string \<Rightarrow> nat \<Rightarrow> 'o returned io" where
  "data_handle env data user_input filename n =
     (let data_rows = length (df_rows data) in
      if data_rows > 100 then
        bind (emit (Log INFO ''Function called for large dataset'')) (\<lambda>_.
          bind (large_data env data user_input ''data.json'' 10) (\<lambda>(response, preprocessed_data).
            bind (process_llm_response env response (Frame preprocessed_data))
              (\<lambda>(response_text, chart). ret (Tuple2 response_text chart))))
      else if data_rows \<le> 100 then
        bind (emit (Log INFO ''Function Called for short dataset'')) (\<lambda>_.
          bind (short_data env data user_input) (\<lambda>(response, data_json).
            bind (process_llm_response env response (Str data_json))
              (\<lambda>(response_text, chart). ret (Tuple3 data_rows response_text chart))))
      else ret ReturnsNone)"

text \<open>\<open>summary_text, chart = data_handle(...)\<close> in streamlit_app.py: unpacking into two
  names.\<close>

definition unpack2 :: "'o returned \<Rightarrow> py_exc + (string \<times> 'o pyobj)" where
  "unpack2 r =
     (case r of
        Tuple2 a b \<Rightarrow> Inr (a, b)
      | Tuple3 a b c \<Rightarrow> Inl (Exc ''ValueError'' ''too many values to unpack (expected 2)'')
      | ReturnsNone \<Rightarrow> Inl (Exc ''TypeError'' ''cannot unpack non-iterable NoneType object''))"

section \<open>Query Translator and Fallback Repair (response_handler.py)\<close>

definition SENTINEL :: string where
  "SENTINEL = ''I cannot generate a SQL query for this request based on the provided schema.''"

text \<open>\<open>sep.join(xs)\<close>\<close>

fun join :: "string \<Rightarrow> string list \<Rightarrow> string" where
  "join sep [] = []"
| "join sep [x] = x"
| "join sep (x # y # ys) = x @ sep @ join sep (y # ys)"

definition generate_initial_response :: "'o env \<Rightarrow> string \<Rightarrow> nat \<Rightarrow> string io" where
  "generate_initial_response env user_input k =
     try_except
       (bind (emit (Log INFO ''Function generate_initial_response.'')) (\<lambda>_.
          bind (similarity_search env user_input k) (\<lambda>flattened_context.
            let context = join [CHR 0x0A] flattened_context;
                system_message = SystemMessage
                  (SYSTEM_PROMPT env @ [CHR 0x0A] @ ''Schema Context:'' @ [CHR 0x0A] @ context);
                human_message = HumanMessage user_input
            in bind (invoke env (Messages [system_message, human_message])) (\<lambda>content.
                 bind (emit (Log INFO (strip content))) (\<lambda>_. ret (strip content))))))
       (\<lambda>e. bind (emit (Log ERROR ''Error generating response...'')) (\<lambda>_.
              bind (emit (Print (''Error generating response: '' @ str_of e))) (\<lambda>_.
                ret ''An error occurred while processing your request. Please try again later.'')))"

definition trigger_fallback_logic ::
  "'o env \<Rightarrow> string \<Rightarrow> string \<Rightarrow> message \<Rightarrow> string io" where
  "trigger_fallback_logic env user_input context human_message =
     try_except
       (bind (emit (Log INFO ''Fallback Logic triggered.'')) (\<lambda>_.
          let refined_system_message = SystemMessage (SYSTEM_PROMPT_2 env user_input context)
          in bind (invoke env (Messages [refined_system_message, human_message])) (\<lambda>content.
               bind (emit (Log INFO ''Improved Prompts Generated.'')) (\<lambda>_.
                 bind (emit (Log CRITICAL ''TERMINATED'')) (\<lambda>_. ret (strip content))))))
       (\<lambda>e. bind (emit (Print (''Error triggering fallback logic: '' @ str_of e))) (\<lambda>_.
              bind (emit (Log ERROR ''Error triggering fallback logic.'')) (\<lambda>_.
                ret ''An error occurred while processing the fallback logic. Please try again later.'')))"

definition get_response :: "'o env \<Rightarrow> string \<Rightarrow> nat \<Rightarrow> string io" where
  "get_response env user_input k =
     try_except
       (bind (emit (Log INFO ''Function get_response...'')) (\<lambda>_.
          bind (generate_initial_response env user_input k) (\<lambda>response.
            if contains SENTINEL response then
              bind (emit (Log INFO ''Fallback triggered'')) (\<lambda>_.
                bind (similarity_search env user_input k) (\<lambda>flattened_context.
                  let context = join [CHR 0x0A] flattened_context
                  in trigger_fallback_logic env user_input context (HumanMessage user_input)))
            else
              bind (emit (Log CRITICAL ''TERMINATED'')) (\<lambda>_. ret response))))
       (\<lambda>e. bind (emit (Print (''Error in get_response: '' @ str_of e))) (\<lambda>_.
              bind (emit (Log ERROR ''An error occurred while processing your request'')) (\<lambda>_.
                bind (emit (Log CRITICAL ''TERMINATED'')) (\<lambda>_.
                  ret ''An error occurred while processing your request. Please try again later.''))))"

section \<open>Example collaborators and an example table\<close>

text \<open>
  Concrete collaborators, for evaluating the functions on examples: a language model that
  answers \<open>first\<close> to the first call and \<open>later\<close> to every later call, and an
  interpreter that either raises \<open>raised\<close> or binds \<open>chart\<close>.
\<close>

fun is_Invoke :: "event \<Rightarrow> bool" where
  "is_Invoke (Invoke x) = True"
| "is_Invoke ev = False"

definition example_env :: "string \<Rightarrow> string \<Rightarrow> py_exc option \<Rightarrow> unit env" where
  "example_env first later raised =
     \<lparr> llm = (\<lambda>t x. if list_ex is_Invoke t then Inr later else Inr first),
       vector_store = (\<lambda>t q k. Inr [''table demographics'', ''column State'']),
       exec_code = (\<lambda>t code ns. case raised of Some e \<Rightarrow> Inl e | None \<Rightarrow> Inr (ns(''chart'' \<mapsto> Obj ()))),
       warehouse = (\<lambda>t q. Inl ''not connected''),
       to_json = (\<lambda>df. ''[]''),
       short_prompt = (\<lambda>data_json user_input. data_json @ user_input),
       large_prompt = (\<lambda>json_filename data_preview user_input. json_filename @ data_preview @ user_input),
       SYSTEM_PROMPT = ''You write SQL.'',
       SYSTEM_PROMPT_2 = (\<lambda>user_input context. user_input @ context) \<rparr>"

definition example_table :: dataframe where
  "example_table = \<lparr>df_columns = [''a''], df_rows = [(5, [Num 1]), (6, [Missing]), (7, [Bool False])]\<rparr>"

definition example_rows :: "nat \<Rightarrow> dataframe" where
  "example_rows k = \<lparr>df_columns = [''x''], df_rows = replicate k (0, [Num 1])\<rparr>"

section \<open>Facts about texts\<close>

lemma startswith_iff: "startswith s p \<longleftrightarrow> (\<exists>r. s = p @ r)"
  unfolding startswith_def
  by (metis append_eq_conv_conj append_take_drop_id)

lemma endswith_iff: "endswith s q \<longleftrightarrow> (\<exists>m. s = m @ q)"
proof
  assume "endswith s q"
  then have "s = take (length s - length q) s @ q"
    unfolding endswith_def by (metis append_take_drop_id)
  then show "\<exists>m. s = m @ q" ..
next
  assume "\<exists>m. s = m @ q"
  then show "endswith s q" unfolding endswith_def by auto
qed

lemma contains_iff: "contains sub s \<longleftrightarrow> (\<exists>pre post. s = pre @ sub @ post)"
proof (induction s)
  case Nil show ?case by auto
next
  case (Cons c cs)
  show ?case
  proof
    assume "contains sub (c # cs)"
    then consider "startswith (c # cs) sub" | "contains sub cs" by auto
    then show "\<exists>pre post. c # cs = pre @ sub @ post"
    proof cases
      case 1
      then obtain r where "c # cs = sub @ r" using startswith_iff by blast
      then have "c # cs = [] @ sub @ r" by simp
      then show ?thesis by blast
    next
      case 2
      then obtain pre post where "cs = pre @ sub @ post" using Cons.IH by blast
      then have "c # cs = (c # pre) @ sub @ post" by simp
      then show ?thesis by blast
    qed
  next
    assume "\<exists>pre post. c # cs = pre @ sub @ post"
    then obtain pre post where eq: "c # cs = pre @ sub @ post" by blast
    show "contains sub (c # cs)"
    proof (cases pre)
      case Nil
      then have "startswith (c # cs) sub" using eq startswith_iff by auto
      then show ?thesis by simp
    next
      case (Cons p ps)
      then have "cs = ps @ sub @ post" using eq by simp
      then have "contains sub cs" using Cons.IH by blast
      then show ?thesis by simp
    qed
  qed
qed

lemma refine_response_str:
  "refine_response (PyStr s) t = (Inr (PyStr (refine_text s)), t @ [Log INFO ''Refining Resonse...''])"
  by (simp add: refine_response_def bind_def emit_def lift_def re_sub_def py_strip_def
      refine_text_def unwrap_fences_def)


lemma sub_wrapped_exact: "sub_wrapped opn cls (opn @ x @ cls) = x"
  by (simp add: sub_wrapped_def startswith_def endswith_def)

lemma sub_wrapped_changes:
  assumes "sub_wrapped opn cls s \<noteq> s"
  shows "startswith s opn \<and> (endswith (drop (length opn) s) cls
            \<or> endswith (drop (length opn) s) (cls @ [CHR 0x0A]))"
  using assms unfolding sub_wrapped_def Let_def by (auto split: if_splits)

lemma not_space_tick: "\<not> isspace (CHR ''`'')" by (simp add: isspace_def)
lemma space_nl: "isspace (CHR 0x0A)" by (simp add: isspace_def)

lemma strip_tick_tick: "strip (CHR ''`'' # w @ ''`'') = CHR ''`'' # w @ ''`''"
  by (simp add: strip_def not_space_tick)

lemma strip_tick_tick_nl: "strip (CHR ''`'' # w @ [CHR ''`'', CHR 0x0A]) = CHR ''`'' # w @ ''`''"
  by (simp add: strip_def not_space_tick space_nl)

lemma fenced_tick: "fenced (CHR ''`'' # w @ ''`'')"
  by (simp add: fenced_def startswith_def endswith_def)

lemma sub_wrapped_fenced:
  assumes ch: "sub_wrapped (CHR ''`'' # opn) (cls @ ''`'') s \<noteq> s"
  shows "fenced (strip s)"
proof -
  from sub_wrapped_changes[OF ch]
  obtain r where s: "s = (CHR ''`'' # opn) @ r"
    and e: "endswith r (cls @ ''`'') \<or> endswith r ((cls @ ''`'') @ [CHR 0x0A])"
    using startswith_iff by (metis append_eq_conv_conj)
  from e show ?thesis
  proof
    assume "endswith r (cls @ ''`'')"
    then obtain m where "r = m @ cls @ ''`''" using endswith_iff by blast
    then have "s = CHR ''`'' # (opn @ m @ cls) @ ''`''" using s by simp
    then show ?thesis using strip_tick_tick fenced_tick by metis
  next
    assume "endswith r ((cls @ ''`'') @ [CHR 0x0A])"
    then obtain m where "r = m @ (cls @ ''`'') @ [CHR 0x0A]" using endswith_iff by blast
    then have "s = CHR ''`'' # (opn @ m @ cls) @ [CHR ''`'', CHR 0x0A]" using s by simp
    then show ?thesis using strip_tick_tick_nl fenced_tick by metis
  qed
qed

lemma unwrap_fences_id:
  assumes "\<not> fenced (strip s)"
  shows "unwrap_fences s = s"
proof -
  have a: "sub_wrapped ''```sql'' ''```'' s = s"
    using sub_wrapped_fenced[of "''``sql''" "''``''" s] assms by auto
  have b: "sub_wrapped ''```'' ''```'' s = s"
    using sub_wrapped_fenced[of "''``''" "''``''" s] assms by auto
  have c: "sub_wrapped ''`'' ''`'' s = s"
    using sub_wrapped_fenced[of "[]" "[]" s] assms by auto
  show ?thesis by (simp add: unwrap_fences_def a b c)
qed

section \<open>Properties of the Response Sanitizer\<close>

text \<open>
  A value that has no \<open>strip\<close> method, such as \<open>None\<close>, is outside the declared
  input type (\<open>str\<close>) and is passed by no caller. For it the \<open>TypeError\<close> of
  \<open>re.sub\<close> is caught and logged, and the \<open>response.strip()\<close> that follows the
  \<open>try\<close> raises.
\<close>

lemma refine_response_None:
  "refine_response PyNone [] =
     (Inl (Exc ''AttributeError'' ''NoneType object has no attribute strip''),
      [Log INFO ''Refining Resonse...'', Log ERROR ''Error in refine_response.''])"
  by (simp add: refine_response_def bind_def emit_def lift_def re_sub_def py_strip_def)


text \<open>
  C6 (as stated, refuted). The claim says that the leading tag is removed in any letter
  case. The pattern has no \<open>re.IGNORECASE\<close>: an upper-case tag stays.
\<close>

theorem refine_response_upper_tag_kept:
  "fst (refine_response (PyStr ''SQL SELECT 1'') []) = Inr (PyStr ''SQL SELECT 1'')"
  by (simp add: refine_response_str refine_text_def sub_sql_tag_def unwrap_fences_def
      sub_wrapped_def startswith_def strip_def isspace_def)

text \<open>
  C6 (amended). A leading lower-case \<open>sql\<close> and the whitespace after it are removed
  from the very start of the text, before the fences are unwrapped and the text is
  trimmed; a text that does not start with lower-case \<open>sql\<close> keeps its start.
\<close>

theorem refine_response_lower_tag:
  "refine_response (PyStr (''sql'' @ rest)) t =
     (Inr (PyStr (strip (unwrap_fences (dropWhile re_space rest)))),
      t @ [Log INFO ''Refining Resonse...''])
   \<and> (\<not> startswith s ''sql'' \<longrightarrow>
        refine_response (PyStr s) t =
          (Inr (PyStr (strip (unwrap_fences s))), t @ [Log INFO ''Refining Resonse...'']))"
  by (simp add: refine_response_str refine_text_def sub_sql_tag_def startswith_def)

theorem refine_response_lower_tag_witness:
  "\<not> startswith ''Sql SELECT 1'' ''sql''
   \<and> fst (refine_response (PyStr ''sql  SELECT 1'') []) = Inr (PyStr ''SELECT 1'')
   \<and> fst (refine_response (PyStr ''Sql SELECT 1'') []) = Inr (PyStr ''Sql SELECT 1'')"
  using refine_response_lower_tag [of "''  SELECT 1''" "[]" "''Sql SELECT 1''"]
  by (simp add: unwrap_fences_def sub_wrapped_def startswith_def strip_def isspace_def
      re_space_def)

text \<open>
  C7 (as stated, refuted). The claim says that a text wrapped in a \<open>```sql\<close> fence comes
  out as the fenced interior, trimmed. The later substitutions run on the interior too:
  an interior that is itself wrapped in backticks loses them.
\<close>

theorem refine_response_nested_fence:
  "fst (refine_response (PyStr (''```sql'' @ ''`SELECT 1`'' @ ''```'')) [])
     = Inr (PyStr ''SELECT 1'')
   \<and> strip ''`SELECT 1`'' = ''`SELECT 1`''"
  by (simp add: refine_response_str refine_text_def sub_sql_tag_def unwrap_fences_def
      sub_wrapped_def startswith_def endswith_def strip_def isspace_def)

text \<open>
  C7 (amended). For every text that begins with \<open>```sql\<close> and ends with \<open>```\<close>, whose
  fenced interior, once trimmed, is not itself wrapped in backticks, the output is the
  fenced interior, trimmed.
\<close>

theorem refine_response_sql_fence:
  assumes "\<not> fenced (strip x)"
  shows "refine_response (PyStr (''```sql'' @ x @ ''```'')) t =
           (Inr (PyStr (strip x)), t @ [Log INFO ''Refining Resonse...''])"
proof -
  have tag: "sub_sql_tag (''```sql'' @ x @ ''```'') = ''```sql'' @ x @ ''```''"
    by (simp add: sub_sql_tag_def startswith_def)
  have outer: "sub_wrapped ''```sql'' ''```'' (''```sql'' @ x @ ''```'') = x"
    by (rule sub_wrapped_exact)
  have b: "sub_wrapped ''```'' ''```'' x = x"
    using sub_wrapped_fenced[of "''``''" "''``''" x] assms by auto
  have c: "sub_wrapped ''`'' ''`'' x = x"
    using sub_wrapped_fenced[of "[]" "[]" x] assms by auto
  have "refine_text (''```sql'' @ x @ ''```'') = strip x"
    unfolding refine_text_def unwrap_fences_def tag outer b c ..
  then show ?thesis by (simp add: refine_response_str)
qed

theorem refine_response_sql_fence_witness:
  "\<not> fenced (strip [CHR 0x0A, CHR ''S'', CHR ''E'', CHR ''L'', CHR 0x0A])
   \<and> fst (refine_response (PyStr (''```sql'' @ [CHR 0x0A, CHR ''S'', CHR ''E'', CHR ''L'', CHR 0x0A]
            @ ''```'')) []) = Inr (PyStr ''SEL'')"
proof -
  have h: "\<not> fenced (strip [CHR 0x0A, CHR ''S'', CHR ''E'', CHR ''L'', CHR 0x0A])"
    by (simp add: fenced_def strip_def isspace_def startswith_def)
  show ?thesis
    using h refine_response_sql_fence [OF h, of "[]"]
    by (simp add: strip_def isspace_def)
qed

text \<open>
  C8. A text with no decoration comes out trimmed and otherwise unchanged: when the text
  has no leading \<open>sql\<close> tag and, once trimmed, is not wrapped in backticks (which
  covers the triple-backtick fences), the output is the input, trimmed.
\<close>

theorem refine_response_undecorated:
  assumes "\<not> startswith s ''sql''" and "\<not> fenced (strip s)"
  shows "refine_response (PyStr s) t =
           (Inr (PyStr (strip s)), t @ [Log INFO ''Refining Resonse...''])"
proof -
  have "sub_sql_tag s = s" using assms(1) by (simp add: sub_sql_tag_def)
  moreover have "unwrap_fences s = s" using assms(2) by (rule unwrap_fences_id)
  ultimately have "refine_text s = strip s" by (simp add: refine_text_def)
  then show ?thesis by (simp add: refine_response_str)
qed

theorem refine_response_undecorated_witness:
  "\<not> startswith ''  SELECT 1;  '' ''sql'' \<and> \<not> fenced (strip ''  SELECT 1;  '')
   \<and> fst (refine_response (PyStr ''  SELECT 1;  '') []) = Inr (PyStr ''SELECT 1;'')"
proof -
  have h1: "\<not> startswith ''  SELECT 1;  '' ''sql''" by (simp add: startswith_def)
  have h2: "\<not> fenced (strip ''  SELECT 1;  '')"
    by (simp add: fenced_def strip_def isspace_def startswith_def)
  show ?thesis
    using h1 h2 refine_response_undecorated [OF h1 h2, of "[]"]
    by (simp add: strip_def isspace_def)
qed

section \<open>Facts about tables and about the fence search\<close>

lemma ne_zero_iff: "ne_zero c \<longleftrightarrow> \<not> eq_zero c"
  by (cases c) auto

lemma list_ex_ne_zero: "list_ex ne_zero r \<longleftrightarrow> \<not> all_zero r"
  by (induction r) (auto simp: all_zero_def ne_zero_iff)

lemma preprocess_data_eq:
  "preprocess_data data t = (Inr (reset_index (keep_nonzero (fillna data))), t @ [Log INFO ''Preporcessing Data...''])"
  by (simp add: preprocess_data_def bind_def emit_def ret_def)

lemma rows_cleaned:
  "map snd (df_rows (reset_index (keep_nonzero (fillna data)))) =
     filter (\<lambda>r. \<not> all_zero r) (map (\<lambda>(i, r). map fillna0 r) (df_rows data))"
proof -
  let ?filled = "map (\<lambda>(i, r). (i, map fillna0 r)) (df_rows data)"
  let ?kept = "filter (\<lambda>(i, r). list_ex ne_zero r) ?filled"
  have 1: "map snd (filter (\<lambda>(i, r). list_ex ne_zero r) xs)
             = filter (\<lambda>r. \<not> all_zero r) (map snd xs)" for xs :: "(nat \<times> cell list) list"
    by (induction xs) (auto simp: list_ex_ne_zero)
  have 2: "map snd (map (\<lambda>(i, r). (i, map fillna0 r)) ys) = map (\<lambda>(i, r). map fillna0 r) ys"
    for ys :: "(nat \<times> cell list) list"
    by (induction ys) auto
  have "df_rows (reset_index (keep_nonzero (fillna data)))
          = zip [0..<length ?kept] (map snd ?kept)"
    by (simp add: reset_index_def keep_nonzero_def fillna_def)
  then have "map snd (df_rows (reset_index (keep_nonzero (fillna data)))) = map snd ?kept"
    by (simp del: map_map)
  also have "\<dots> = filter (\<lambda>r. \<not> all_zero r) (map snd ?filled)" by (rule 1)
  also have "map snd ?filled = map (\<lambda>(i, r). map fillna0 r) (df_rows data)" by (rule 2)
  finally show ?thesis .
qed

lemma index_cleaned:
  "map fst (df_rows (reset_index df)) = [0..<length (df_rows df)]"
  "length (df_rows (reset_index df)) = length (df_rows df)"
  by (simp_all add: reset_index_def)

lemma length_cleaned_less:
  assumes "(i, r) \<in> set (df_rows data)" "all_zero (map fillna0 r)"
  shows "length (df_rows (reset_index (keep_nonzero (fillna data)))) < length (df_rows data)"
proof -
  let ?f = "map (\<lambda>(i, r). (i, map fillna0 r)) (df_rows data)"
  have "(i, map fillna0 r) \<in> set ?f" using assms(1) by force
  moreover have "\<not> (\<lambda>(i, r). list_ex ne_zero r) (i, map fillna0 r)"
    using assms(2) by (simp add: list_ex_ne_zero)
  ultimately have "length (filter (\<lambda>(i, r). list_ex ne_zero r) ?f) < length ?f"
    by (meson length_filter_less)
  then show ?thesis by (simp add: reset_index_def keep_nonzero_def fillna_def)
qed






section \<open>Properties of the cleaning step\<close>

text \<open>
  C10. For every input frame, \<open>preprocess_data\<close> returns a frame with the same columns
  whose rows are the filled rows of the input that are not all equal to 0, in order: no
  all-zero row is left, also none that became all-zero through the fill; the index is
  reset to 0, 1, 2, ...; and when the input has a row that is all-zero after the fill,
  the cleaned frame has strictly fewer rows than the input, whose row count is what
  \<open>data_handle\<close> routes on. Both summarization paths build what they send to the
  language model from the cleaned frame.
\<close>

theorem preprocess_data_drops_zero_rows:
  "\<exists>cleaned.
     preprocess_data data t = (Inr cleaned, t @ [Log INFO ''Preporcessing Data...''])
   \<and> df_columns cleaned = df_columns data
   \<and> map snd (df_rows cleaned)
       = filter (\<lambda>r. \<not> all_zero r) (map (\<lambda>(i, r). map fillna0 r) (df_rows data))
   \<and> (\<forall>r \<in> set (map snd (df_rows cleaned)). \<not> all_zero r)
   \<and> map fst (df_rows cleaned) = [0..<length (df_rows cleaned)]
   \<and> ((i, r) \<in> set (df_rows data) \<and> all_zero (map fillna0 r)
        \<longrightarrow> length (df_rows cleaned) < length (df_rows data))
   \<and> short_data env data user_input t =
       bind (invoke env (Prompt (short_prompt env (to_json env cleaned) user_input)))
         (\<lambda>content. ret (strip content, to_json env cleaned))
         (t @ [Log INFO ''Fucntion short_data.'', Log INFO ''Preporcessing Data...''])
   \<and> large_data env data user_input filename n t =
       bind (invoke env
               (Prompt (large_prompt env filename (to_json env (head n cleaned)) user_input)))
         (\<lambda>content. ret (strip content, cleaned))
         (t @ [Log INFO ''Function large_data'', Log INFO ''Preporcessing Data...'',
               Log INFO ''Saving to Json...'', WriteFile filename (to_json env cleaned),
               Log INFO ''Fetching Head...''])"
proof -
  let ?c = "reset_index (keep_nonzero (fillna data))"
  have 1: "preprocess_data data t = (Inr ?c, t @ [Log INFO ''Preporcessing Data...''])"
    by (rule preprocess_data_eq)
  have 2: "df_columns ?c = df_columns data"
    by (simp add: reset_index_def keep_nonzero_def fillna_def)
  have 3: "map snd (df_rows ?c)
       = filter (\<lambda>r. \<not> all_zero r) (map (\<lambda>(i, r). map fillna0 r) (df_rows data))"
    by (rule rows_cleaned)
  have 4: "\<forall>r \<in> set (map snd (df_rows ?c)). \<not> all_zero r"
    unfolding 3 by simp
  have 5: "map fst (df_rows ?c) = [0..<length (df_rows ?c)]"
    by (simp add: index_cleaned)
  have 6: "(i, r) \<in> set (df_rows data) \<and> all_zero (map fillna0 r)
        \<longrightarrow> length (df_rows ?c) < length (df_rows data)"
    using length_cleaned_less by blast
  have 7: "short_data env data user_input t =
       bind (invoke env (Prompt (short_prompt env (to_json env ?c) user_input)))
         (\<lambda>content. ret (strip content, to_json env ?c))
         (t @ [Log INFO ''Fucntion short_data.'', Log INFO ''Preporcessing Data...''])"
    by (simp add: short_data_def bind_def emit_def preprocess_data_eq Let_def)
  have 8: "large_data env data user_input filename n t =
       bind (invoke env
               (Prompt (large_prompt env filename (to_json env (head n ?c)) user_input)))
         (\<lambda>content. ret (strip content, ?c))
         (t @ [Log INFO ''Function large_data'', Log INFO ''Preporcessing Data...'',
               Log INFO ''Saving to Json...'', WriteFile filename (to_json env ?c),
               Log INFO ''Fetching Head...''])"
    by (simp add: large_data_def bind_def emit_def ret_def preprocess_data_eq save_json_def
        get_head_def)
  from 1 2 3 4 5 6 7 8 show ?thesis by blast
qed

theorem preprocess_data_drops_zero_rows_witness:
  "(6, [Missing]) \<in> set (df_rows example_table) \<and> all_zero (map fillna0 [Missing])
   \<and> length (df_rows example_table) = 3
   \<and> preprocess_data example_table [] =
       (Inr \<lparr>df_columns = [''a''], df_rows = [(0, [Num 1])]\<rparr>,
        [Log INFO ''Preporcessing Data...''])"
proof -
  have h: "(6, [Missing]) \<in> set (df_rows example_table) \<and> all_zero (map fillna0 [Missing])"
    by (simp add: example_table_def all_zero_def)
  from preprocess_data_drops_zero_rows
         [where data = example_table and t = "[]" and i = 6 and r = "[Missing]"
            and env = "example_env [] [] None" and user_input = "[]" and filename = "[]"
            and n = 0]
  obtain cleaned where c: "preprocess_data example_table [] =
      (Inr cleaned, [] @ [Log INFO ''Preporcessing Data...''])"
    and "(6, [Missing]) \<in> set (df_rows example_table) \<and> all_zero (map fillna0 [Missing])
           \<longrightarrow> length (df_rows cleaned) < length (df_rows example_table)"
    by blast
  have "fst (preprocess_data example_table []) =
      Inr \<lparr>df_columns = [''a''], df_rows = [(0, [Num 1])]\<rparr>"
    by (simp add: preprocess_data_eq example_table_def reset_index_def keep_nonzero_def
        fillna_def)
  with c h show ?thesis by (simp add: example_table_def)
qed

section \<open>The cleaning of the prose on examples\<close>

text \<open>
  A fenced block without the \<open>python\<close> tag is removed when it lies on one line and
  kept when it runs over several lines, as the pattern without \<open>re.DOTALL\<close> does.
\<close>

lemma clean_response_one_line_fence:
  "clean_response ''a ```x``` b'' = ''a  b''"
  by code_simp

lemma clean_response_keeps_multiline_fence:
  "clean_response ''T ```python\<newline>x\<newline>``` and ```\<newline>SELECT 1\<newline>``` end''
     = ''T  and ```\<newline>SELECT 1\<newline>``` end''"
  by code_simp

section \<open>Properties of the Code Extractor/Executor\<close>




section \<open>Properties of the Dataset Router\<close>

lemma bind_Inr:
  "bind m f t = (Inr r, t'') \<Longrightarrow> \<exists>x t'. m t = (Inr x, t') \<and> f x t' = (Inr r, t'')"
  by (auto simp: bind_def split: prod.splits sum.splits)

lemma example_env_sel:
  "llm (example_env first later raised) t x
     = (if list_ex is_Invoke t then Inr later else Inr first)"
  "vector_store (example_env first later raised) t q k
     = Inr [''table demographics'', ''column State'']"
  "exec_code (example_env first later raised) t code ns
     = (case raised of Some e \<Rightarrow> Inl e | None \<Rightarrow> Inr (ns(''chart'' \<mapsto> Obj ())))"
  "to_json (example_env first later raised) df = ''[]''"
  "short_prompt (example_env first later raised) a b = a @ b"
  "large_prompt (example_env first later raised) f a b = f @ a @ b"
  "SYSTEM_PROMPT (example_env first later raised) = ''You write SQL.''"
  "SYSTEM_PROMPT_2 (example_env first later raised) a b = a @ b"
  by (simp_all add: example_env_def)

lemma process_llm_response_plain:
  assumes "search_fence ''```python'' response_text = None"
  shows "process_llm_response env response_text data t =
           (Inr (clean_response response_text, NoneObj),
            t @ [Log INFO ''Function process_llm_response''])"
  using assms by (simp add: process_llm_response_def bind_def emit_def ret_def)

lemma example_process:
  "process_llm_response (example_env '' Summary '' [] None) ''Summary'' data t =
     (Inr (''Summary'', NoneObj), t @ [Log INFO ''Function process_llm_response''])"
proof -
  have n: "search_fence ''```python'' ''Summary'' = None"
    by (simp add: search_fence_def startswith_def)
  have c: "clean_response ''Summary'' = ''Summary''" by code_simp
  show ?thesis using process_llm_response_plain [OF n] by (simp add: c)
qed

lemma strip_example: "strip '' Summary '' = ''Summary''"
  by (simp add: strip_def isspace_def)

lemma example_short_data:
  "short_data (example_env '' Summary '' [] None) (example_rows k) ''q''
       [Log INFO ''Function Called for short dataset'']
     = (Inr (''Summary'', ''[]''),
        [Log INFO ''Function Called for short dataset'', Log INFO ''Fucntion short_data.'',
         Log INFO ''Preporcessing Data...'', Invoke (Prompt ''[]q'')])"
  by (simp add: short_data_def preprocess_data_def bind_def emit_def ret_def invoke_def
      client_result_def example_env_sel strip_example Let_def)

lemma example_large_data:
  "large_data (example_env '' Summary '' [] None) (example_rows k) ''q'' ''data.json'' 10
       [Log INFO ''Function called for large dataset'']
     = (Inr (''Summary'', reset_index (keep_nonzero (fillna (example_rows k)))),
        [Log INFO ''Function called for large dataset'', Log INFO ''Function large_data'',
         Log INFO ''Preporcessing Data...'', Log INFO ''Saving to Json...'',
         WriteFile ''data.json'' ''[]'', Log INFO ''Fetching Head...'',
         Invoke (Prompt ''data.json[]q'')])"
  by (simp add: large_data_def preprocess_data_def save_json_def get_head_def bind_def
      emit_def ret_def invoke_def client_result_def example_env_sel strip_example Let_def)

lemma example_rows_length: "length (df_rows (example_rows k)) = k"
  by (simp add: example_rows_def)

lemma example_short_run:
  assumes "k \<le> 100"
  shows "data_handle (example_env '' Summary '' [] None) (example_rows k) ''q'' ''data.json'' 10 []
       = (Inr (Tuple3 k ''Summary'' NoneObj),
          [Log INFO ''Function Called for short dataset'', Log INFO ''Fucntion short_data.'',
           Log INFO ''Preporcessing Data...'', Invoke (Prompt ''[]q''),
           Log INFO ''Function process_llm_response''])"
  using assms
  by (simp add: data_handle_def example_rows_length bind_def emit_def ret_def
      example_short_data example_process)

lemma example_large_run:
  assumes "k > 100"
  shows "data_handle (example_env '' Summary '' [] None) (example_rows k) ''q'' ''data.json'' 10 []
       = (Inr (Tuple2 ''Summary'' NoneObj),
          [Log INFO ''Function called for large dataset'', Log INFO ''Function large_data'',
           Log INFO ''Preporcessing Data...'', Log INFO ''Saving to Json...'',
           WriteFile ''data.json'' ''[]'', Log INFO ''Fetching Head...'',
           Invoke (Prompt ''data.json[]q''), Log INFO ''Function process_llm_response''])"
  using assms
  by (simp add: data_handle_def example_rows_length bind_def emit_def ret_def
      example_large_data example_process)

lemma process_llm_response_no_write:
  "WriteFile f c \<in> set (snd (process_llm_response env r d t)) \<Longrightarrow> WriteFile f c \<in> set t"
  by (auto simp: process_llm_response_def bind_def emit_def ret_def try_except_def exec_def
      Let_def split: option.splits prod.splits sum.splits if_splits)

lemma process_llm_response_extends:
  "set t \<subseteq> set (snd (process_llm_response env r d t))"
  by (auto simp: process_llm_response_def bind_def emit_def ret_def try_except_def exec_def
      Let_def split: option.splits prod.splits sum.splits if_splits)

lemma short_path_no_write:
  assumes "length (df_rows data) \<le> 100"
    and "WriteFile f c \<in> set (snd (data_handle env data user_input filename n t))"
  shows "WriteFile f c \<in> set t"
proof -
  have sd: "WriteFile f c \<in> set (snd (short_data env data user_input u)) \<Longrightarrow> WriteFile f c \<in> set u" for u
    by (auto simp: short_data_def preprocess_data_def bind_def emit_def ret_def invoke_def
        Let_def split: prod.splits sum.splits)
  show ?thesis
  proof (cases "short_data env data user_input (t @ [Log INFO ''Function Called for short dataset''])")
    case (Pair res u)
    then have u: "WriteFile f c \<in> set u \<Longrightarrow> WriteFile f c \<in> set t"
      using sd[of "t @ [Log INFO ''Function Called for short dataset'']"] by simp
    show ?thesis
    proof (cases res)
      case (Inl e)
      with Pair assms u show ?thesis
        by (simp add: data_handle_def bind_def emit_def Let_def)
    next
      case (Inr x)
      obtain response data_json where x: "x = (response, data_json)" by (cases x)
      obtain res2 u2 where p: "process_llm_response env response (Str data_json) u = (res2, u2)"
        by (cases "process_llm_response env response (Str data_json) u")
      have "WriteFile f c \<in> set u2 \<Longrightarrow> WriteFile f c \<in> set u"
        using process_llm_response_no_write[of f c env response "Str data_json" u] p by simp
      moreover have "snd (data_handle env data user_input filename n t) = u2"
        using assms(1) Pair Inr x p
        by (auto simp: data_handle_def bind_def emit_def ret_def Let_def split: prod.splits sum.splits)
      ultimately show ?thesis using assms(2) u by blast
    qed
  qed
qed

lemma large_path_writes:
  assumes "length (df_rows data) > 100"
  shows "\<exists>c. WriteFile ''data.json'' c \<in> set (snd (data_handle env data user_input filename n t))"
proof -
  let ?w = "WriteFile ''data.json'' (to_json env (reset_index (keep_nonzero (fillna data))))"
  obtain res u where ld: "large_data env data user_input ''data.json'' 10
        (t @ [Log INFO ''Function called for large dataset'']) = (res, u)"
    by (cases "large_data env data user_input ''data.json'' 10
        (t @ [Log INFO ''Function called for large dataset''])")
  then have wu: "?w \<in> set u"
    by (auto simp: large_data_def preprocess_data_def save_json_def get_head_def bind_def emit_def
        ret_def invoke_def Let_def split: prod.splits sum.splits)
  show ?thesis
  proof (cases res)
    case (Inl e)
    with ld assms wu show ?thesis
      by (auto simp: data_handle_def bind_def emit_def Let_def)
  next
    case (Inr x)
    obtain response pre where x: "x = (response, pre)" by (cases x)
    obtain res2 u2 where p: "process_llm_response env response (Frame pre) u = (res2, u2)"
      by (cases "process_llm_response env response (Frame pre) u")
    have "set u \<subseteq> set u2"
      using process_llm_response_extends[of u env response "Frame pre"] p by simp
    moreover have "snd (data_handle env data user_input filename n t) = u2"
      using assms Inr ld x p
      by (auto simp: data_handle_def bind_def emit_def ret_def Let_def split: prod.splits sum.splits)
    ultimately show ?thesis using wu by blast
  qed
qed

text \<open>
  C1. The routing of \<open>data_handle\<close> is decided by the row count of the table alone,
  against the threshold 100: with at most 100 rows (100 included) the short path runs,
  \<open>short_data\<close> and then the code executor on the inline JSON; with more than 100 rows
  the large path runs, \<open>large_data\<close> and then the code executor on the cleaned frame.
  The short path writes no file; the large path always writes \<open>data.json\<close>. The two
  cases cover every table, so the branch that returns nothing is never taken.
\<close>

theorem data_handle_routes_on_row_count:
  "(length (df_rows data) \<le> 100 \<longrightarrow>
      data_handle env data user_input filename n t =
        bind (short_data env data user_input) (\<lambda>(response, data_json).
          bind (process_llm_response env response (Str data_json))
            (\<lambda>(response_text, chart).
               ret (Tuple3 (length (df_rows data)) response_text chart)))
          (t @ [Log INFO ''Function Called for short dataset''])
      \<and> (WriteFile f c \<in> set (snd (data_handle env data user_input filename n t))
           \<longrightarrow> WriteFile f c \<in> set t))
   \<and> (length (df_rows data) > 100 \<longrightarrow>
      data_handle env data user_input filename n t =
        bind (large_data env data user_input ''data.json'' 10)
          (\<lambda>(response, preprocessed_data).
             bind (process_llm_response env response (Frame preprocessed_data))
               (\<lambda>(response_text, chart). ret (Tuple2 response_text chart)))
          (t @ [Log INFO ''Function called for large dataset''])
      \<and> (\<exists>json. WriteFile ''data.json'' json
                   \<in> set (snd (data_handle env data user_input filename n t))))"
proof (intro conjI impI)
  assume "length (df_rows data) \<le> 100"
  then show "data_handle env data user_input filename n t =
        bind (short_data env data user_input) (\<lambda>(response, data_json).
          bind (process_llm_response env response (Str data_json))
            (\<lambda>(response_text, chart).
               ret (Tuple3 (length (df_rows data)) response_text chart)))
          (t @ [Log INFO ''Function Called for short dataset''])"
    by (simp add: data_handle_def bind_def emit_def Let_def)
next
  assume "length (df_rows data) \<le> 100"
    and "WriteFile f c \<in> set (snd (data_handle env data user_input filename n t))"
  then show "WriteFile f c \<in> set t" by (rule short_path_no_write)
next
  assume "100 < length (df_rows data)"
  then show "data_handle env data user_input filename n t =
        bind (large_data env data user_input ''data.json'' 10)
          (\<lambda>(response, preprocessed_data).
             bind (process_llm_response env response (Frame preprocessed_data))
               (\<lambda>(response_text, chart). ret (Tuple2 response_text chart)))
          (t @ [Log INFO ''Function called for large dataset''])"
    by (simp add: data_handle_def bind_def emit_def Let_def)
next
  assume "100 < length (df_rows data)"
  then show "\<exists>json. WriteFile ''data.json'' json
                   \<in> set (snd (data_handle env data user_input filename n t))"
    by (rule large_path_writes)
qed

theorem data_handle_routes_on_row_count_witness:
  "length (df_rows (example_rows 100)) \<le> 100
   \<and> data_handle (example_env '' Summary '' [] None) (example_rows 100) ''q'' ''data.json'' 10 []
       = (Inr (Tuple3 100 ''Summary'' NoneObj),
          [Log INFO ''Function Called for short dataset'', Log INFO ''Fucntion short_data.'',
           Log INFO ''Preporcessing Data...'', Invoke (Prompt ''[]q''),
           Log INFO ''Function process_llm_response''])
   \<and> length (df_rows (example_rows 101)) > 100
   \<and> data_handle (example_env '' Summary '' [] None) (example_rows 101) ''q'' ''data.json'' 10 []
       = (Inr (Tuple2 ''Summary'' NoneObj),
          [Log INFO ''Function called for large dataset'', Log INFO ''Function large_data'',
           Log INFO ''Preporcessing Data...'', Log INFO ''Saving to Json...'',
           WriteFile ''data.json'' ''[]'', Log INFO ''Fetching Head...'',
           Invoke (Prompt ''data.json[]q''), Log INFO ''Function process_llm_response''])"
proof -
  let ?env = "example_env '' Summary '' [] None"
  have h1: "length (df_rows (example_rows 100)) \<le> 100" by (simp add: example_rows_length)
  have h2: "length (df_rows (example_rows 101)) > 100" by (simp add: example_rows_length)
  from data_handle_routes_on_row_count
         [of "example_rows 100" ?env "''q''" "''data.json''" 10 "[]"] h1
  have a: "data_handle ?env (example_rows 100) ''q'' ''data.json'' 10 []
       = (Inr (Tuple3 100 ''Summary'' NoneObj),
          [Log INFO ''Function Called for short dataset'', Log INFO ''Fucntion short_data.'',
           Log INFO ''Preporcessing Data...'', Invoke (Prompt ''[]q''),
           Log INFO ''Function process_llm_response''])"
    by (simp add: bind_def example_short_data example_process ret_def example_rows_length)
  from data_handle_routes_on_row_count
         [of "example_rows 101" ?env "''q''" "''data.json''" 10 "[]"] h2
  have b: "data_handle ?env (example_rows 101) ''q'' ''data.json'' 10 []
       = (Inr (Tuple2 ''Summary'' NoneObj),
          [Log INFO ''Function called for large dataset'', Log INFO ''Function large_data'',
           Log INFO ''Preporcessing Data...'', Log INFO ''Saving to Json...'',
           WriteFile ''data.json'' ''[]'', Log INFO ''Fetching Head...'',
           Invoke (Prompt ''data.json[]q''), Log INFO ''Function process_llm_response''])"
    by (simp add: bind_def example_large_data example_process ret_def)
  from h1 h2 a b show ?thesis by blast
qed

text \<open>
  C4 (code defect). The docstring of \<open>data_handle\<close> promises one shape, (row count,
  cleaned response text, chart). Whatever the collaborators answer, the large path
  returns a pair (response text, chart) and the short path a triple; unpacking into two
  names, as streamlit_app.py does, succeeds on the pair and fails on the triple.
\<close>

theorem data_handle_shape_differs_by_path:
  "(length (df_rows data) > 100 \<and> data_handle env data user_input filename n t = (Inr r, t')
      \<longrightarrow> (\<exists>response_text chart. r = Tuple2 response_text chart
             \<and> unpack2 r = Inr (response_text, chart)))
   \<and> (length (df_rows data) \<le> 100 \<and> data_handle env data user_input filename n t = (Inr r, t')
      \<longrightarrow> (\<exists>response_text chart. r = Tuple3 (length (df_rows data)) response_text chart)
          \<and> unpack2 r = Inl (Exc ''ValueError'' ''too many values to unpack (expected 2)''))"
  by (auto simp: data_handle_def bind_def emit_def ret_def unpack2_def Let_def
      split: prod.splits sum.splits)

theorem data_handle_shape_differs_by_path_witness:
  "length (df_rows (example_rows 150)) > 100
   \<and> fst (data_handle (example_env '' Summary '' [] None) (example_rows 150) ''q'' ''data.json'' 10 [])
       = Inr (Tuple2 ''Summary'' NoneObj)
   \<and> length (df_rows (example_rows 7)) \<le> 100
   \<and> fst (data_handle (example_env '' Summary '' [] None) (example_rows 7) ''q'' ''data.json'' 10 [])
       = Inr (Tuple3 7 ''Summary'' NoneObj)
   \<and> unpack2 (Tuple3 7 ''Summary'' (NoneObj :: unit pyobj))
       = Inl (Exc ''ValueError'' ''too many values to unpack (expected 2)'')"
proof -
  let ?env = "example_env '' Summary '' [] None"
  have h1: "length (df_rows (example_rows 150)) > 100" by (simp add: example_rows_length)
  have h2: "length (df_rows (example_rows 7)) \<le> 100" by (simp add: example_rows_length)
  have r1: "data_handle ?env (example_rows 150) ''q'' ''data.json'' 10 []
       = (Inr (Tuple2 ''Summary'' NoneObj),
          [Log INFO ''Function called for large dataset'', Log INFO ''Function large_data'',
           Log INFO ''Preporcessing Data...'', Log INFO ''Saving to Json...'',
           WriteFile ''data.json'' ''[]'', Log INFO ''Fetching Head...'',
           Invoke (Prompt ''data.json[]q''), Log INFO ''Function process_llm_response''])"
    by (rule example_large_run) simp
  have r2: "data_handle ?env (example_rows 7) ''q'' ''data.json'' 10 []
       = (Inr (Tuple3 7 ''Summary'' NoneObj),
          [Log INFO ''Function Called for short dataset'', Log INFO ''Fucntion short_data.'',
           Log INFO ''Preporcessing Data...'', Invoke (Prompt ''[]q''),
           Log INFO ''Function process_llm_response''])"
    by (rule example_short_run) simp
  from data_handle_shape_differs_by_path
         [where data = "example_rows 7" and env = ?env and user_input = "''q''"
            and filename = "''data.json''" and n = 10 and t = "[]"
            and r = "Tuple3 7 ''Summary'' NoneObj"
            and t' = "[Log INFO ''Function Called for short dataset'',
                       Log INFO ''Fucntion short_data.'', Log INFO ''Preporcessing Data...'',
                       Invoke (Prompt ''[]q''), Log INFO ''Function process_llm_response'']"]
       h2 r2
  have u: "unpack2 (Tuple3 7 ''Summary'' (NoneObj :: unit pyobj))
       = Inl (Exc ''ValueError'' ''too many values to unpack (expected 2)'')"
    by blast
  from h1 h2 r1 r2 u show ?thesis by simp
qed

section \<open>Properties of the fallback trigger\<close>

lemma generate_initial_response_cases:
  "generate_initial_response env user_input k t =
     (case vector_store env (t @ [Log INFO ''Function generate_initial_response.'']) user_input k of
        Inl msg \<Rightarrow>
          (Inr ''An error occurred while processing your request. Please try again later.'',
           t @ [Log INFO ''Function generate_initial_response.'', Search user_input k,
                Log ERROR ''Error generating response...'',
                Print (''Error generating response: '' @ msg)])
      | Inr flattened_context \<Rightarrow>
          (let x = Messages
                 [SystemMessage (SYSTEM_PROMPT env @ [CHR 0x0A] @ ''Schema Context:'' @ [CHR 0x0A]
                                   @ join [CHR 0x0A] flattened_context),
                  HumanMessage user_input];
               t1 = t @ [Log INFO ''Function generate_initial_response.'', Search user_input k]
           in case llm env t1 x of
                Inl msg \<Rightarrow>
                  (Inr ''An error occurred while processing your request. Please try again later.'',
                   t1 @ [Invoke x, Log ERROR ''Error generating response...'',
                         Print (''Error generating response: '' @ msg)])
              | Inr content \<Rightarrow>
                  (Inr (strip content), t1 @ [Invoke x, Log INFO (strip content)])))"
  by (simp add: generate_initial_response_def try_except_def bind_def emit_def ret_def
      similarity_search_def invoke_def client_result_def Let_def split: sum.splits)

lemma trigger_fallback_logic_cases:
  "trigger_fallback_logic env user_input context human_message t =
     (let x = Messages [SystemMessage (SYSTEM_PROMPT_2 env user_input context), human_message];
          t1 = t @ [Log INFO ''Fallback Logic triggered.'']
      in case llm env t1 x of
           Inl msg \<Rightarrow>
             (Inr ''An error occurred while processing the fallback logic. Please try again later.'',
              t1 @ [Invoke x, Print (''Error triggering fallback logic: '' @ msg),
                    Log ERROR ''Error triggering fallback logic.''])
         | Inr content \<Rightarrow>
             (Inr (strip content),
              t1 @ [Invoke x, Log INFO ''Improved Prompts Generated.'',
                    Log CRITICAL ''TERMINATED'']))"
  by (simp add: trigger_fallback_logic_def try_except_def bind_def emit_def ret_def
      invoke_def client_result_def Let_def split: sum.splits)

lemma generate_initial_response_returns:
  "\<exists>response t1. generate_initial_response env user_input k t = (Inr response, t1)"
  by (simp add: generate_initial_response_cases Let_def split: sum.splits)

lemma trigger_fallback_logic_returns:
  "\<exists>reply t1. trigger_fallback_logic env user_input context human_message t = (Inr reply, t1)"
  by (simp add: trigger_fallback_logic_cases Let_def split: sum.splits)

lemma get_response_fallback:
  assumes g: "generate_initial_response env user_input k
                (t @ [Log INFO ''Function get_response...'']) = (Inr response, t1)"
    and c: "contains SENTINEL response"
  shows "get_response env user_input k t =
      (case vector_store env (t1 @ [Log INFO ''Fallback triggered'']) user_input k of
         Inr flattened_context \<Rightarrow>
           trigger_fallback_logic env user_input (join [CHR 0x0A] flattened_context)
             (HumanMessage user_input)
             (t1 @ [Log INFO ''Fallback triggered'', Search user_input k])
       | Inl msg \<Rightarrow>
           (Inr ''An error occurred while processing your request. Please try again later.'',
            t1 @ [Log INFO ''Fallback triggered'', Search user_input k,
                  Print (''Error in get_response: '' @ msg),
                  Log ERROR ''An error occurred while processing your request'',
                  Log CRITICAL ''TERMINATED'']))"
proof (cases "vector_store env (t1 @ [Log INFO ''Fallback triggered'']) user_input k")
  case (Inl msg)
  then show ?thesis using g c
    by (simp add: get_response_def try_except_def bind_def emit_def ret_def
        similarity_search_def client_result_def)
next
  case (Inr ctx)
  obtain reply t2 where tf: "trigger_fallback_logic env user_input (join [CHR 0x0A] ctx)
             (HumanMessage user_input)
             (t1 @ [Log INFO ''Fallback triggered'', Search user_input k]) = (Inr reply, t2)"
    using trigger_fallback_logic_returns by blast
  show ?thesis using g c Inr tf
    by (simp add: get_response_def try_except_def bind_def emit_def ret_def
        similarity_search_def client_result_def)
qed

lemma get_response_direct:
  assumes g: "generate_initial_response env user_input k
                (t @ [Log INFO ''Function get_response...'']) = (Inr response, t1)"
    and c: "\<not> contains SENTINEL response"
  shows "get_response env user_input k t = (Inr response, t1 @ [Log CRITICAL ''TERMINATED''])"
  using g c
  by (simp add: get_response_def try_except_def bind_def emit_def ret_def)

lemma get_response_no_query:
  "Query q \<in> set (snd (get_response env user_input k t)) \<Longrightarrow> Query q \<in> set t"
proof -
  assume a: "Query q \<in> set (snd (get_response env user_input k t))"
  obtain response t1 where g: "generate_initial_response env user_input k
                (t @ [Log INFO ''Function get_response...'']) = (Inr response, t1)"
    using generate_initial_response_returns by blast
  have q1: "Query q \<in> set t1 \<Longrightarrow> Query q \<in> set t"
    using g by (auto simp: generate_initial_response_cases Let_def split: sum.splits)
  show ?thesis
  proof (cases "contains SENTINEL response")
    case False
    from get_response_direct[OF g False] a q1 show ?thesis by auto
  next
    case True
    from get_response_fallback[OF g True] a q1 show ?thesis
      by (auto simp: trigger_fallback_logic_cases Let_def split: sum.splits)
  qed
qed

text \<open>
  C2. \<open>get_response\<close> classifies the translator's response by whether the fixed
  sentinel occurs in it anywhere, as a substring. When it does, the fallback branch
  runs and what \<open>trigger_fallback_logic\<close> returns is returned as it is (a fixed apology
  when the schema context cannot be retrieved again); when it does not, the translator's
  response itself is returned and no second call of the language model is made. In
  neither case is the warehouse queried.
\<close>

theorem get_response_fallback_iff_sentinel:
  "\<exists>response t1.
     generate_initial_response env user_input k (t @ [Log INFO ''Function get_response...''])
       = (Inr response, t1)
   \<and> ((\<exists>pre post. response = pre @ SENTINEL @ post) \<longrightarrow>
        get_response env user_input k t =
          (case vector_store env (t1 @ [Log INFO ''Fallback triggered'']) user_input k of
             Inr flattened_context \<Rightarrow>
               trigger_fallback_logic env user_input (join [CHR 0x0A] flattened_context)
                 (HumanMessage user_input)
                 (t1 @ [Log INFO ''Fallback triggered'', Search user_input k])
           | Inl msg \<Rightarrow>
               (Inr ''An error occurred while processing your request. Please try again later.'',
                t1 @ [Log INFO ''Fallback triggered'', Search user_input k,
                      Print (''Error in get_response: '' @ msg),
                      Log ERROR ''An error occurred while processing your request'',
                      Log CRITICAL ''TERMINATED''])))
   \<and> (\<not> (\<exists>pre post. response = pre @ SENTINEL @ post) \<longrightarrow>
        get_response env user_input k t = (Inr response, t1 @ [Log CRITICAL ''TERMINATED'']))
   \<and> (Query q \<in> set (snd (get_response env user_input k t)) \<longrightarrow> Query q \<in> set t)"
proof -
  obtain response t1 where g: "generate_initial_response env user_input k
                (t @ [Log INFO ''Function get_response...'']) = (Inr response, t1)"
    using generate_initial_response_returns by blast
  have c: "contains SENTINEL response \<longleftrightarrow> (\<exists>pre post. response = pre @ SENTINEL @ post)"
    by (rule contains_iff)
  from g get_response_fallback[OF g] get_response_direct[OF g] get_response_no_query c
  show ?thesis by blast
qed

theorem get_response_fallback_iff_sentinel_witness:
  "''Sorry. I cannot generate a SQL query for this request based on the provided schema.''
     = ''Sorry. '' @ SENTINEL @ []
   \<and> get_response
       (example_env ''Sorry. I cannot generate a SQL query for this request based on the provided schema.''
          '' Try asking about states. '' None) ''q'' 5 []
     = (Inr ''Try asking about states.'',
        [Log INFO ''Function get_response...'', Log INFO ''Function generate_initial_response.'',
         Search ''q'' 5,
         Invoke (Messages [SystemMessage ''You write SQL.\<newline>Schema Context:\<newline>table demographics\<newline>column State'',
                           HumanMessage ''q'']),
         Log INFO ''Sorry. I cannot generate a SQL query for this request based on the provided schema.'',
         Log INFO ''Fallback triggered'', Search ''q'' 5, Log INFO ''Fallback Logic triggered.'',
         Invoke (Messages [SystemMessage ''qtable demographics\<newline>column State'', HumanMessage ''q'']),
         Log INFO ''Improved Prompts Generated.'', Log CRITICAL ''TERMINATED''])"
proof -
  let ?first = "''Sorry. I cannot generate a SQL query for this request based on the provided schema.''"
  let ?env = "example_env ?first '' Try asking about states. '' None"
  let ?t1 = "[Log INFO ''Function get_response...'', Log INFO ''Function generate_initial_response.'',
         Search ''q'' 5,
         Invoke (Messages [SystemMessage ''You write SQL.\<newline>Schema Context:\<newline>table demographics\<newline>column State'',
                           HumanMessage ''q'']),
         Log INFO ?first]"
  have h: "?first = ''Sorry. '' @ SENTINEL @ []" by (simp add: SENTINEL_def)
  have s1: "strip ?first = ?first" by (simp add: strip_def isspace_def)
  have s2: "strip '' Try asking about states. '' = ''Try asking about states.''"
    by (simp add: strip_def isspace_def)
  have g: "generate_initial_response ?env ''q'' 5 ([] @ [Log INFO ''Function get_response...''])
             = (Inr ?first, ?t1)"
    by (simp add: generate_initial_response_cases example_env_sel Let_def s1)
  from get_response_fallback_iff_sentinel [of ?env "''q''" 5 "[]"]
  obtain response t1 where
      g': "generate_initial_response ?env ''q'' 5 ([] @ [Log INFO ''Function get_response...''])
             = (Inr response, t1)"
    and f: "(\<exists>pre post. response = pre @ SENTINEL @ post) \<longrightarrow>
        get_response ?env ''q'' 5 [] =
          (case vector_store ?env (t1 @ [Log INFO ''Fallback triggered'']) ''q'' 5 of
             Inr flattened_context \<Rightarrow>
               trigger_fallback_logic ?env ''q'' (join [CHR 0x0A] flattened_context)
                 (HumanMessage ''q'')
                 (t1 @ [Log INFO ''Fallback triggered'', Search ''q'' 5])
           | Inl msg \<Rightarrow>
               (Inr ''An error occurred while processing your request. Please try again later.'',
                t1 @ [Log INFO ''Fallback triggered'', Search ''q'' 5,
                      Print (''Error in get_response: '' @ msg),
                      Log ERROR ''An error occurred while processing your request'',
                      Log CRITICAL ''TERMINATED'']))"
    by blast
  from g' [unfolded g] have rt: "?first = response \<and> ?t1 = t1"
    by blast
  from rt have r: "response = ?first" by blast
  from rt have t1: "t1 = ?t1" by blast
  from h r have "\<exists>pre post. response = pre @ SENTINEL @ post" by blast
  with f have "get_response ?env ''q'' 5 [] =
          (case vector_store ?env (t1 @ [Log INFO ''Fallback triggered'']) ''q'' 5 of
             Inr flattened_context \<Rightarrow>
               trigger_fallback_logic ?env ''q'' (join [CHR 0x0A] flattened_context)
                 (HumanMessage ''q'')
                 (t1 @ [Log INFO ''Fallback triggered'', Search ''q'' 5])
           | Inl msg \<Rightarrow>
               (Inr ''An error occurred while processing your request. Please try again later.'',
                t1 @ [Log INFO ''Fallback triggered'', Search ''q'' 5,
                      Print (''Error in get_response: '' @ msg),
                      Log ERROR ''An error occurred while processing your request'',
                      Log CRITICAL ''TERMINATED'']))"
    by blast
  then have "get_response ?env ''q'' 5 [] =
     (Inr ''Try asking about states.'',
      ?t1 @ [Log INFO ''Fallback triggered'', Search ''q'' 5, Log INFO ''Fallback Logic triggered.'',
         Invoke (Messages [SystemMessage ''qtable demographics\<newline>column State'', HumanMessage ''q'']),
         Log INFO ''Improved Prompts Generated.'', Log CRITICAL ''TERMINATED''])"
    unfolding t1
    by (simp add: trigger_fallback_logic_cases example_env_sel Let_def s2)
  with h show ?thesis by simp
qed

end
